theory Spec2Isabelle
  imports Complex_Main
begin

section \<open>The object model of \<^verbatim>\<open>pythoncad/new_api.py\<close>\<close>

text \<open>
  Drawings, layers and entities are Python objects that refer to each other, and the
  methods mutate them in place. The embedding therefore keeps an explicit store: every
  object is named by a reference, and the \<open>world\<close> maps each reference to the
  object's current fields. None of the classes defines \<^verbatim>\<open>__eq__\<close>, so Python's
  \<^verbatim>\<open>list.remove\<close> and \<^verbatim>\<open>in\<close> compare by identity, which is equality of references here.
\<close>

type_synonym drawing_ref = nat
type_synonym layer_ref = nat
type_synonym entity_ref = nat

datatype error =
    AttributeError | ValueError | TypeError | IndexError | OverflowError | RequiredFailure

definition bind_error :: "error + 'a \<Rightarrow> ('a \<Rightarrow> error + 'b) \<Rightarrow> error + 'b" where
  "bind_error r f = (case r of Inl e \<Rightarrow> Inl e | Inr v \<Rightarrow> f v)"

subsection \<open>Numbers\<close>

text \<open>
  A coordinate or a length is a Python number, an \<^verbatim>\<open>int\<close> or a \<^verbatim>\<open>float\<close>. The
  code only stores and copies numbers, so a float is represented by its value.
  \<^verbatim>\<open>float(n)\<close> of an \<^verbatim>\<open>int\<close> rounds and, beyond the range of a float, raises
  \<^verbatim>\<open>OverflowError\<close>: that conversion is a parameter of the model.
\<close>

datatype number = PyInt int | PyFloat real

type_synonym float_conversion = "int \<Rightarrow> error + real"

definition py_float :: "float_conversion \<Rightarrow> number \<Rightarrow> error + real" where
  "py_float fl n = (case n of PyInt i \<Rightarrow> fl i | PyFloat r \<Rightarrow> Inr r)"

subsection \<open>The interface of the external solver library\<close>

text \<open>
  \<^verbatim>\<open>SimplexSolver\<close>, \<^verbatim>\<open>Variable\<close> and \<^verbatim>\<open>REQUIRED\<close> come from the
  third-party package \<^verbatim>\<open>cassowary\<close>, which is not part of the repository. A variable
  is an object with a name and a value, which the library stores as a float and rewrites
  when it solves; \<^verbatim>\<open>-\<close> and \<^verbatim>\<open>==\<close> build symbolic expressions and equations. The
  name of a point's variable is \<^verbatim>\<open>'x{}'.format(id(self))\<close>: the axis letter and the
  identity of the point.
\<close>

datatype axis = X | Y

datatype variable = Variable (var_axis: axis) (var_owner: entity_ref) (var_value: real)

datatype strength = REQUIRED

datatype expression =
    Var variable
  | Num number
  | Sub expression expression
  | Add expression expression

text \<open>
  The two kinds of request the source makes of a solver: a stay on a variable, made at
  the value the variable holds at that moment, and a constraint built by \<^verbatim>\<open>==\<close>.
\<close>

datatype primitive =
    Stay variable strength
  | Equation expression expression

text \<open>
  A solver is the sequence of primitives it has accepted, oldest first. What the library
  does with a request is a parameter of the model: given the primitives accepted so far
  and the new one, it either raises (\<^verbatim>\<open>RequiredFailure\<close> when a required constraint
  cannot be met) or accepts the primitive and, solving at once, writes new values into
  variables, found by their names. The library holds the variables handed to it and
  nothing else of a drawing.
\<close>

type_synonym solver = "primitive list"

type_synonym assignment = "axis \<Rightarrow> entity_ref \<Rightarrow> real option"

type_synonym library = "solver \<Rightarrow> primitive \<Rightarrow> error + assignment"

definition SimplexSolver :: solver where
  "SimplexSolver = []"

definition variable_eq :: "variable \<Rightarrow> variable \<Rightarrow> primitive" where
  "variable_eq a b = Equation (Var a) (Var b)"

definition variable_sub :: "variable \<Rightarrow> variable \<Rightarrow> expression" where
  "variable_sub a b = Sub (Var a) (Var b)"

definition expression_add :: "expression \<Rightarrow> expression \<Rightarrow> expression" where
  "expression_add a b = Add a b"

definition expression_eq :: "expression \<Rightarrow> number \<Rightarrow> primitive" where
  "expression_eq a n = Equation a (Num n)"

text \<open>
  The library's expressions define neither \<^verbatim>\<open>__pow__\<close> nor \<^verbatim>\<open>__abs__\<close>, as the
  two TODO comments of the source record (``Cassowary doesn't support \<^verbatim>\<open>__mul__\<close> or
  \<^verbatim>\<open>__div__\<close> with expressions'', ``Cassowary doesn't support abs''), so Python raises
  \<^verbatim>\<open>TypeError\<close> for \<^verbatim>\<open>(x)**2\<close> and for \<^verbatim>\<open>abs(x)\<close> on them.
\<close>

definition expression_pow :: "expression \<Rightarrow> int \<Rightarrow> error + expression" where
  "expression_pow e n = Inl TypeError"

definition expression_abs :: "expression \<Rightarrow> error + expression" where
  "expression_abs e = Inl TypeError"

text \<open>
  \<^verbatim>\<open>math.sqrt\<close> wants a float and an expression does not convert to one.
\<close>

definition math_sqrt :: "expression \<Rightarrow> error + expression" where
  "math_sqrt e = Inl TypeError"

subsection \<open>Classes as records\<close>

datatype constraint =
    FixedConstraint (point: entity_ref)
  | HorizontalConstraint (p1: entity_ref) (p2: entity_ref)
  | VerticalConstraint (p1: entity_ref) (p2: entity_ref)
  | LengthConstraint (p1: entity_ref) (p2: entity_ref) (length_of: number)
  | HorizontalLengthConstraint (p1: entity_ref) (p2: entity_ref) (length_of: number)

record drawing =
  d_title :: string
  d_layers :: "layer_ref list"
  d_constraints :: "constraint list"

record layer =
  l_title :: string
  l_drawing :: "drawing_ref option"
  l_entities :: "entity_ref list"
  l_visible :: bool

text \<open>
  \<^verbatim>\<open>Point\<close>, \<^verbatim>\<open>Segment\<close> and \<^verbatim>\<open>Circle\<close> extend \<^verbatim>\<open>LayerEntity\<close>; only a
  point has fields of its own.
\<close>

datatype shape =
    Point (x: number) (y: number) (solver_variables: "variable list")
  | Segment
  | Circle

record entity =
  e_layer :: "layer_ref option"
  e_visible :: bool
  e_shape :: shape

record world =
  drawings :: "drawing_ref \<Rightarrow> drawing"
  layers :: "layer_ref \<Rightarrow> layer"
  entities :: "entity_ref \<Rightarrow> entity"

subsection \<open>Constructors\<close>

definition Drawing_init :: "string \<Rightarrow> drawing" where
  "Drawing_init title = \<lparr>d_title = title, d_layers = [], d_constraints = []\<rparr>"

definition Layer_init :: "string \<Rightarrow> layer" where
  "Layer_init title = \<lparr>l_title = title, l_drawing = None, l_entities = [], l_visible = True\<rparr>"

definition LayerEntity_init :: "shape \<Rightarrow> entity" where
  "LayerEntity_init sh = \<lparr>e_layer = None, e_visible = True, e_shape = sh\<rparr>"

text \<open>
  \<^verbatim>\<open>Point.__init__\<close> stores the coordinates as given and builds the two variables,
  whose constructor converts the value with \<^verbatim>\<open>float\<close>.
\<close>

definition Point_init :: "float_conversion \<Rightarrow> entity_ref \<Rightarrow> number \<Rightarrow> number \<Rightarrow> error + entity" where
  "Point_init fl self px py =
     bind_error (py_float fl px) (\<lambda>vx.
       bind_error (py_float fl py) (\<lambda>vy.
         Inr (LayerEntity_init (Point px py [Variable X self vx, Variable Y self vy]))))"

subsection \<open>Python's list operations\<close>

definition list_remove :: "'a list \<Rightarrow> 'a \<Rightarrow> error + 'a list" where
  "list_remove xs v = (if v \<in> set xs then Inr (remove1 v xs) else Inl ValueError)"

definition list_get :: "'a list \<Rightarrow> nat \<Rightarrow> 'a option" where
  "list_get xs i = (if i < length xs then Some (xs ! i) else None)"

subsection \<open>Drawing\<close>

definition layer_count :: "world \<Rightarrow> drawing_ref \<Rightarrow> nat" where
  "layer_count w d = length (d_layers (drawings w d))"

text \<open>
  \<^verbatim>\<open>remove_layer\<close>: the \<^verbatim>\<open>ValueError\<close> of \<^verbatim>\<open>list.remove\<close> is caught, and then
  nothing has been changed.
\<close>

definition remove_layer :: "world \<Rightarrow> drawing_ref \<Rightarrow> layer_ref \<Rightarrow> error + world" where
  "remove_layer w d l =
     (case list_remove (d_layers (drawings w d)) l of
        Inr ls \<Rightarrow>
          (let w1 = w\<lparr>drawings := (drawings w)(d := (drawings w d)\<lparr>d_layers := ls\<rparr>)\<rparr>
           in Inr (w1\<lparr>layers := (layers w1)(l := (layers w1 l)\<lparr>l_drawing := None\<rparr>)\<rparr>))
      | Inl ValueError \<Rightarrow> Inr w
      | Inl e \<Rightarrow> Inl e)"

text \<open>
  \<^verbatim>\<open>add_layer\<close>: for a layer whose \<^verbatim>\<open>drawing\<close> is \<^verbatim>\<open>None\<close> the call
  \<^verbatim>\<open>layer.drawing.remove_layer\<close> raises \<^verbatim>\<open>AttributeError\<close>, which is caught.
\<close>

definition add_layer :: "world \<Rightarrow> drawing_ref \<Rightarrow> layer_ref \<Rightarrow> error + world" where
  "add_layer w d l =
     (let attempt = (case l_drawing (layers w l) of
                       None \<Rightarrow> Inl AttributeError
                     | Some d' \<Rightarrow> remove_layer w d' l);
          append = (\<lambda>w1.
            let w2 = w1\<lparr>drawings := (drawings w1)(d := (drawings w1 d)
                          \<lparr>d_layers := d_layers (drawings w1 d) @ [l]\<rparr>)\<rparr>
            in Inr (w2\<lparr>layers := (layers w2)(l := (layers w2 l)\<lparr>l_drawing := Some d\<rparr>)\<rparr>))
      in case attempt of
           Inr w1 \<Rightarrow> append w1
         | Inl AttributeError \<Rightarrow> append w
         | Inl e \<Rightarrow> Inl e)"

definition filter_layers ::
  "world \<Rightarrow> drawing_ref \<Rightarrow> layer_ref list option \<Rightarrow> layer_ref list \<Rightarrow> layer_ref list" where
  "filter_layers w d ls exclude =
     (let ls' = (case ls of None \<Rightarrow> d_layers (drawings w d) | Some given \<Rightarrow> given)
      in filter (\<lambda>l. l \<notin> set exclude) ls')"

definition Layer_hide :: "world \<Rightarrow> layer_ref \<Rightarrow> world" where
  "Layer_hide w l = w\<lparr>layers := (layers w)(l := (layers w l)\<lparr>l_visible := False\<rparr>)\<rparr>"

definition Layer_show :: "world \<Rightarrow> layer_ref \<Rightarrow> world" where
  "Layer_show w l = w\<lparr>layers := (layers w)(l := (layers w l)\<lparr>l_visible := True\<rparr>)\<rparr>"

definition hide_layers ::
  "world \<Rightarrow> drawing_ref \<Rightarrow> layer_ref list option \<Rightarrow> layer_ref list \<Rightarrow> world" where
  "hide_layers w d ls exclude = foldl Layer_hide w (filter_layers w d ls exclude)"

definition show_layers ::
  "world \<Rightarrow> drawing_ref \<Rightarrow> layer_ref list option \<Rightarrow> layer_ref list \<Rightarrow> world" where
  "show_layers w d ls exclude = foldl Layer_show w (filter_layers w d ls exclude)"

definition isolate_layer :: "world \<Rightarrow> drawing_ref \<Rightarrow> layer_ref \<Rightarrow> world" where
  "isolate_layer w d l = hide_layers (Layer_show w l) d None [l]"

definition add_constraint :: "world \<Rightarrow> drawing_ref \<Rightarrow> constraint \<Rightarrow> world" where
  "add_constraint w d c =
     w\<lparr>drawings := (drawings w)(d := (drawings w d)
          \<lparr>d_constraints := d_constraints (drawings w d) @ [c]\<rparr>)\<rparr>"

subsection \<open>Layer\<close>

definition entity_count :: "world \<Rightarrow> layer_ref \<Rightarrow> nat" where
  "entity_count w l = length (l_entities (layers w l))"

definition remove_entity :: "world \<Rightarrow> layer_ref \<Rightarrow> entity_ref \<Rightarrow> error + world" where
  "remove_entity w l e =
     (case list_remove (l_entities (layers w l)) e of
        Inr es \<Rightarrow>
          (let w1 = w\<lparr>layers := (layers w)(l := (layers w l)\<lparr>l_entities := es\<rparr>)\<rparr>
           in Inr (w1\<lparr>entities := (entities w1)(e := (entities w1 e)\<lparr>e_layer := None\<rparr>)\<rparr>))
      | Inl ValueError \<Rightarrow> Inr w
      | Inl err \<Rightarrow> Inl err)"

definition add_entity :: "world \<Rightarrow> layer_ref \<Rightarrow> entity_ref \<Rightarrow> error + world" where
  "add_entity w l e =
     (let attempt = (case e_layer (entities w e) of
                       None \<Rightarrow> Inl AttributeError
                     | Some l' \<Rightarrow> remove_entity w l' e);
          append = (\<lambda>w1.
            let w2 = w1\<lparr>layers := (layers w1)(l := (layers w1 l)
                          \<lparr>l_entities := l_entities (layers w1 l) @ [e]\<rparr>)\<rparr>
            in Inr (w2\<lparr>entities := (entities w2)(e := (entities w2 e)\<lparr>e_layer := Some l\<rparr>)\<rparr>))
      in case attempt of
           Inr w1 \<Rightarrow> append w1
         | Inl AttributeError \<Rightarrow> append w
         | Inl err \<Rightarrow> Inl err)"

definition filter_entities ::
  "world \<Rightarrow> layer_ref \<Rightarrow> entity_ref list option \<Rightarrow> entity_ref list \<Rightarrow> entity_ref list" where
  "filter_entities w l es exclude =
     (let es' = (case es of None \<Rightarrow> l_entities (layers w l) | Some given \<Rightarrow> given)
      in filter (\<lambda>e. e \<notin> set exclude) es')"

subsection \<open>LayerEntity\<close>

definition LayerEntity_hide :: "world \<Rightarrow> entity_ref \<Rightarrow> world" where
  "LayerEntity_hide w e = w\<lparr>entities := (entities w)(e := (entities w e)\<lparr>e_visible := False\<rparr>)\<rparr>"

definition LayerEntity_show :: "world \<Rightarrow> entity_ref \<Rightarrow> world" where
  "LayerEntity_show w e = w\<lparr>entities := (entities w)(e := (entities w e)\<lparr>e_visible := True\<rparr>)\<rparr>"

definition hide_entities ::
  "world \<Rightarrow> layer_ref \<Rightarrow> entity_ref list option \<Rightarrow> entity_ref list \<Rightarrow> world" where
  "hide_entities w l es exclude = foldl LayerEntity_hide w (filter_entities w l es exclude)"

definition show_entities ::
  "world \<Rightarrow> layer_ref \<Rightarrow> entity_ref list option \<Rightarrow> entity_ref list \<Rightarrow> world" where
  "show_entities w l es exclude = foldl LayerEntity_show w (filter_entities w l es exclude)"

text \<open>
  \<^verbatim>\<open>is_visible\<close>: Python's \<^verbatim>\<open>and\<close> evaluates \<^verbatim>\<open>self.layer.visible\<close> only when
  \<^verbatim>\<open>self.visible\<close> is true; with \<^verbatim>\<open>self.layer\<close> equal to \<^verbatim>\<open>None\<close> that access
  raises \<^verbatim>\<open>AttributeError\<close>.
\<close>

definition is_visible :: "world \<Rightarrow> entity_ref \<Rightarrow> error + bool" where
  "is_visible w e =
     (if e_visible (entities w e)
      then (case e_layer (entities w e) of
              None \<Rightarrow> Inl AttributeError
            | Some l \<Rightarrow> (if l_visible (layers w l) then Inr True else Inr False))
      else Inr False)"


subsection \<open>Point\<close>

text \<open>
  The properties \<^verbatim>\<open>x\<close> and \<^verbatim>\<open>y\<close> read and write \<^verbatim>\<open>_x\<close> and \<^verbatim>\<open>_y\<close>; the
  setters leave the solver variables alone. (On an entity that is not a point the
  assignment creates a plain attribute, which the model does not keep.)
\<close>

definition Point_x :: "world \<Rightarrow> entity_ref \<Rightarrow> error + number" where
  "Point_x w p = (case e_shape (entities w p) of Point px _ _ \<Rightarrow> Inr px | _ \<Rightarrow> Inl AttributeError)"

definition Point_y :: "world \<Rightarrow> entity_ref \<Rightarrow> error + number" where
  "Point_y w p = (case e_shape (entities w p) of Point _ py _ \<Rightarrow> Inr py | _ \<Rightarrow> Inl AttributeError)"


definition Point_set_y :: "world \<Rightarrow> entity_ref \<Rightarrow> number \<Rightarrow> world" where
  "Point_set_y w p v =
     (case e_shape (entities w p) of
        Point px _ vs \<Rightarrow> w\<lparr>entities := (entities w)(p := (entities w p)\<lparr>e_shape := Point px v vs\<rparr>)\<rparr>
      | _ \<Rightarrow> w)"

subsection \<open>Calls on the solver\<close>

text \<open>
  A constraint is applied to a solver and may raise after the solver and the variables
  have changed, so an \<^verbatim>\<open>apply\<close> is a function from the state (the solver and the
  world) to a result, an error or a value, together with the state it leaves.
\<close>

type_synonym state = "solver \<times> world"

type_synonym 'a prog = "state \<Rightarrow> (error + 'a) \<times> state"

definition prog_return :: "'a \<Rightarrow> 'a prog" where
  "prog_return v st = (Inr v, st)"

definition prog_bind :: "'a prog \<Rightarrow> ('a \<Rightarrow> 'b prog) \<Rightarrow> 'b prog" where
  "prog_bind m f st = (case m st of (Inl e, st') \<Rightarrow> (Inl e, st') | (Inr v, st') \<Rightarrow> f v st')"

definition prog_lift :: "error + 'a \<Rightarrow> 'a prog" where
  "prog_lift r st = (r, st)"

text \<open>
  The library writes the values of an assignment into the variable objects, which live
  in the points' \<^verbatim>\<open>solver_variables\<close> lists.
\<close>

definition reassign :: "assignment \<Rightarrow> variable \<Rightarrow> variable" where
  "reassign a v =
     (case a (var_axis v) (var_owner v) of
        None \<Rightarrow> v
      | Some r \<Rightarrow> Variable (var_axis v) (var_owner v) r)"

definition assign :: "assignment \<Rightarrow> world \<Rightarrow> world" where
  "assign a w =
     w\<lparr>entities := (\<lambda>e.
          case e_shape (entities w e) of
            Point px py vs \<Rightarrow> (entities w e)\<lparr>e_shape := Point px py (map (reassign a) vs)\<rparr>
          | _ \<Rightarrow> entities w e)\<rparr>"

text \<open>
  \<^verbatim>\<open>solver.add_stay\<close> and \<^verbatim>\<open>solver.add_constraint\<close>: when the library raises,
  the solver and the variables are as before the call.
\<close>

definition register :: "library \<Rightarrow> primitive \<Rightarrow> unit prog" where
  "register L p st =
     (case L (fst st) p of
        Inl e \<Rightarrow> (Inl e, st)
      | Inr a \<Rightarrow> (Inr (), (fst st @ [p], assign a (snd st))))"

definition add_stay :: "library \<Rightarrow> variable \<Rightarrow> strength \<Rightarrow> unit prog" where
  "add_stay L v s = register L (Stay v s)"

definition solver_add_constraint :: "library \<Rightarrow> primitive \<Rightarrow> unit prog" where
  "solver_add_constraint L c = register L c"

subsection \<open>Constraints\<close>

text \<open>
  \<^verbatim>\<open>p.solver_variables[i]\<close>: only a point has the attribute, and the index must be
  in range. The variable is read as it is at that moment.
\<close>

definition solver_variable :: "entity_ref \<Rightarrow> nat \<Rightarrow> variable prog" where
  "solver_variable p i st =
     (case e_shape (entities (snd st) p) of
        Point _ _ vs \<Rightarrow> (case list_get vs i of Some v \<Rightarrow> (Inr v, st) | None \<Rightarrow> (Inl IndexError, st))
      | _ \<Rightarrow> (Inl AttributeError, st))"

fun apply_constraint :: "library \<Rightarrow> constraint \<Rightarrow> unit prog" where
  "apply_constraint L (FixedConstraint p) =
     prog_bind (solver_variable p 0) (\<lambda>vx.
       prog_bind (add_stay L vx REQUIRED) (\<lambda>_.
         prog_bind (solver_variable p 1) (\<lambda>vy.
           add_stay L vy REQUIRED)))"
| "apply_constraint L (HorizontalConstraint a b) =
     prog_bind (solver_variable a 1) (\<lambda>va.
       prog_bind (solver_variable b 1) (\<lambda>vb.
         solver_add_constraint L (variable_eq va vb)))"
| "apply_constraint L (VerticalConstraint a b) =
     prog_bind (solver_variable a 0) (\<lambda>va.
       prog_bind (solver_variable b 0) (\<lambda>vb.
         solver_add_constraint L (variable_eq va vb)))"
| "apply_constraint L (LengthConstraint a b len) =
     prog_bind (solver_variable b 0) (\<lambda>bx.
       prog_bind (solver_variable a 0) (\<lambda>ax.
         let dx = variable_sub bx ax
         in prog_bind (solver_variable b 1) (\<lambda>by.
              prog_bind (solver_variable a 1) (\<lambda>ay.
                let dy = variable_sub by ay
                in prog_bind (prog_lift (expression_pow dx 2)) (\<lambda>dx2.
                     prog_bind (prog_lift (expression_pow dy 2)) (\<lambda>dy2.
                       prog_bind (prog_lift (math_sqrt (expression_add dx2 dy2))) (\<lambda>r.
                         solver_add_constraint L (expression_eq r len))))))))"
| "apply_constraint L (HorizontalLengthConstraint a b len) =
     prog_bind (solver_variable b 0) (\<lambda>bx.
       prog_bind (solver_variable a 0) (\<lambda>ax.
         prog_bind (prog_lift (expression_abs (variable_sub bx ax))) (\<lambda>dx.
           solver_add_constraint L (expression_eq dx len))))"

text \<open>
  \<^verbatim>\<open>Drawing.solve\<close>: a new solver, then the loop over \<^verbatim>\<open>self.constraints\<close>. An
  exception raised by an \<^verbatim>\<open>apply\<close> leaves the loop and the method. The method returns
  nothing in Python and drops its solver; the model returns the result with the solver
  and the world as the method leaves them, so that what was registered can be observed.
\<close>

fun apply_all :: "library \<Rightarrow> constraint list \<Rightarrow> unit prog" where
  "apply_all L [] = prog_return ()"
| "apply_all L (c # cs) = prog_bind (apply_constraint L c) (\<lambda>_. apply_all L cs)"

definition solve :: "library \<Rightarrow> world \<Rightarrow> drawing_ref \<Rightarrow> (error + unit) \<times> state" where
  "solve L w d = apply_all L (d_constraints (drawings w d)) (SimplexSolver, w)"

text \<open>
  A result of \<^verbatim>\<open>apply\<close> or \<^verbatim>\<open>solve\<close> with the drawings of its world replaced.
\<close>

definition with_drawings :: "(drawing_ref \<Rightarrow> drawing) \<Rightarrow> (error + unit) \<times> state \<Rightarrow> (error + unit) \<times> state" where
  "with_drawings D res = (fst res, fst (snd res), (snd (snd res))\<lparr>drawings := D\<rparr>)"

subsection \<open>Fixtures: the points of the test file\<close>

text \<open>
  \<open>test_point self i j\<close> is the point \<^verbatim>\<open>Point(i, j)\<close> as its constructor leaves it
  when \<^verbatim>\<open>float\<close> is exact on \<open>i\<close> and \<open>j\<close>. The tests build \<^verbatim>\<open>Point(0, 0)\<close>,
  \<^verbatim>\<open>Point(5, 5)\<close>, \<^verbatim>\<open>Point(10, 10)\<close> and \<^verbatim>\<open>Point(20, 20)\<close>, here at the
  references 0 to 3, with every other object as its constructor leaves it.
\<close>

definition test_point :: "entity_ref \<Rightarrow> int \<Rightarrow> int \<Rightarrow> entity" where
  "test_point self i j =
     LayerEntity_init (Point (PyInt i) (PyInt j)
       [Variable X self (real_of_int i), Variable Y self (real_of_int j)])"

definition test_points :: world where
  "test_points =
     \<lparr>drawings = (\<lambda>d. Drawing_init []),
      layers = (\<lambda>l. Layer_init []),
      entities = (\<lambda>e. LayerEntity_init Segment)
        (0 := test_point 0 0 0, 1 := test_point 1 5 5,
         2 := test_point 2 10 10, 3 := test_point 3 20 20)\<rparr>"

text \<open>
  The scene the tests build on top of these points: drawing 0 holds the layers 0 and 1,
  and layer 0 holds the points 0 and 1.
\<close>

definition test_scene :: world where
  "test_scene =
     \<lparr>drawings = (\<lambda>d. Drawing_init [])
        (0 := \<lparr>d_title = [], d_layers = [0, 1], d_constraints = []\<rparr>),
      layers = (\<lambda>l. Layer_init [])
        (0 := \<lparr>l_title = [], l_drawing = Some 0, l_entities = [0, 1], l_visible = True\<rparr>,
         1 := \<lparr>l_title = [], l_drawing = Some 0, l_entities = [], l_visible = True\<rparr>),
      entities = (\<lambda>e. LayerEntity_init Segment)
        (0 := (test_point 0 0 0)\<lparr>e_layer := Some 0\<rparr>,
         1 := (test_point 1 5 5)\<lparr>e_layer := Some 0\<rparr>,
         2 := test_point 2 10 10, 3 := test_point 3 20 20)\<rparr>"

text \<open>
  A stand-in for the library, for the requests the test file makes of a solver that
  holds stays only. It accepts every stay and changes nothing. An equation between two
  variables that \<^verbatim>\<open>REQUIRED\<close> stays hold at different values is refused with
  \<^verbatim>\<open>RequiredFailure\<close>, as \<^verbatim>\<open>test_fixed_constraint\<close> expects; when one of the two is
  held, the other gets its value; when neither is held, both get 0, as
  \<^verbatim>\<open>test_solver\<close> finds for the points (0, 0) and (5, 5). It is used at concrete
  inputs only: every general statement is about an arbitrary library.
\<close>

fun stay_value :: "solver \<Rightarrow> variable \<Rightarrow> real option" where
  "stay_value [] v = None"
| "stay_value (Stay u REQUIRED # ps) v =
     (if var_axis u = var_axis v \<and> var_owner u = var_owner v then Some (var_value u)
      else stay_value ps v)"
| "stay_value (Equation _ _ # ps) v = stay_value ps v"

definition no_change :: assignment where
  "no_change = (\<lambda>_ _. None)"

definition set_value :: "variable \<Rightarrow> real \<Rightarrow> assignment \<Rightarrow> assignment" where
  "set_value v r a = (\<lambda>ax ow. if ax = var_axis v \<and> ow = var_owner v then Some r else a ax ow)"

fun test_library :: library where
  "test_library sv (Stay v s) = Inr no_change"
| "test_library sv (Equation (Var a) (Var b)) =
     (case (stay_value sv a, stay_value sv b) of
        (Some ra, Some rb) \<Rightarrow> (if ra = rb then Inr no_change else Inl RequiredFailure)
      | (Some ra, None) \<Rightarrow> Inr (set_value b ra no_change)
      | (None, Some rb) \<Rightarrow> Inr (set_value a rb no_change)
      | (None, None) \<Rightarrow> Inr (set_value a 0 (set_value b 0 no_change)))"
| "test_library sv (Equation _ _) = Inr no_change"

text \<open>
  The drawing of \<^verbatim>\<open>test_fixed_constraint\<close>: both points fixed, then the horizontal
  constraint between them.
\<close>

definition test_fixed :: world where
  "test_fixed =
     add_constraint
       (add_constraint (add_constraint test_points 0 (FixedConstraint 0)) 0 (FixedConstraint 1))
       0 (HorizontalConstraint 0 1)"

text \<open>
  A drawing whose second constraint is over an entity that is not a point (entity 4 is
  a segment), and the point (5, 5) after \<^verbatim>\<open>point.x = 7\<close>.
\<close>

definition test_segment_second :: world where
  "test_segment_second =
     add_constraint
       (add_constraint (add_constraint test_points 0 (FixedConstraint 0)) 0
          (HorizontalConstraint 0 4))
       0 (VerticalConstraint 0 1)"

text \<open>
  The solver of \<^verbatim>\<open>test_fixed_constraint\<close> once both fixed constraints have been
  applied.
\<close>

definition test_stays :: solver where
  "test_stays =
     [Stay (Variable X 0 0) REQUIRED, Stay (Variable Y 0 0) REQUIRED,
      Stay (Variable X 1 5) REQUIRED, Stay (Variable Y 1 5) REQUIRED]"


subsection \<open>Reachable worlds and consistent membership\<close>

text \<open>
  A world is fresh when every object is as its constructor leaves it, as far as
  membership goes: no drawing has a layer, no layer has a drawing or an entity, no entity
  has a layer. The reachable worlds are those the methods produce from a fresh one.
\<close>

definition fresh :: "world \<Rightarrow> bool" where
  "fresh w \<longleftrightarrow>
     (\<forall>d. d_layers (drawings w d) = [])
     \<and> (\<forall>l. l_drawing (layers w l) = None \<and> l_entities (layers w l) = [])
     \<and> (\<forall>e. e_layer (entities w e) = None)"

inductive reachable :: "world \<Rightarrow> bool" where
  start: "fresh w \<Longrightarrow> reachable w"
| after_add_layer: "reachable w \<Longrightarrow> add_layer w d l = Inr w' \<Longrightarrow> reachable w'"
| after_remove_layer: "reachable w \<Longrightarrow> remove_layer w d l = Inr w' \<Longrightarrow> reachable w'"
| after_add_entity: "reachable w \<Longrightarrow> add_entity w l e = Inr w' \<Longrightarrow> reachable w'"
| after_remove_entity: "reachable w \<Longrightarrow> remove_entity w l e = Inr w' \<Longrightarrow> reachable w'"
| after_Layer_hide: "reachable w \<Longrightarrow> reachable (Layer_hide w l)"
| after_Layer_show: "reachable w \<Longrightarrow> reachable (Layer_show w l)"
| after_LayerEntity_hide: "reachable w \<Longrightarrow> reachable (LayerEntity_hide w e)"
| after_LayerEntity_show: "reachable w \<Longrightarrow> reachable (LayerEntity_show w e)"
| after_add_constraint: "reachable w \<Longrightarrow> reachable (add_constraint w d c)"

definition layers_consistent :: "world \<Rightarrow> bool" where
  "layers_consistent w \<longleftrightarrow>
     (\<forall>d l. l \<in> set (d_layers (drawings w d)) \<longleftrightarrow> l_drawing (layers w l) = Some d)
     \<and> (\<forall>d. distinct (d_layers (drawings w d)))"

definition entities_consistent :: "world \<Rightarrow> bool" where
  "entities_consistent w \<longleftrightarrow>
     (\<forall>l e. e \<in> set (l_entities (layers w l)) \<longleftrightarrow> e_layer (entities w e) = Some l)
     \<and> (\<forall>l. distinct (l_entities (layers w l)))"

definition consistent :: "world \<Rightarrow> bool" where
  "consistent w \<longleftrightarrow> layers_consistent w \<and> entities_consistent w"


section \<open>Membership\<close>

lemma remove_layer_result:
  "remove_layer w d l = Inr
     (if l \<in> set (d_layers (drawings w d))
      then w\<lparr>drawings := (drawings w)(d := (drawings w d)
                \<lparr>d_layers := remove1 l (d_layers (drawings w d))\<rparr>),
             layers := (layers w)(l := (layers w l)\<lparr>l_drawing := None\<rparr>)\<rparr>
      else w)"
  by (simp add: remove_layer_def list_remove_def)

lemma remove_entity_result:
  "remove_entity w l e = Inr
     (if e \<in> set (l_entities (layers w l))
      then w\<lparr>layers := (layers w)(l := (layers w l)
                \<lparr>l_entities := remove1 e (l_entities (layers w l))\<rparr>),
             entities := (entities w)(e := (entities w e)\<lparr>e_layer := None\<rparr>)\<rparr>
      else w)"
  by (simp add: remove_entity_def list_remove_def)

lemma add_layer_result:
  "add_layer w d l = Inr
     (let w1 = (case l_drawing (layers w l) of None \<Rightarrow> w
                | Some d' \<Rightarrow> (if l \<in> set (d_layers (drawings w d'))
      then w\<lparr>drawings := (drawings w)(d' := (drawings w d')
                \<lparr>d_layers := remove1 l (d_layers (drawings w d'))\<rparr>),
             layers := (layers w)(l := (layers w l)\<lparr>l_drawing := None\<rparr>)\<rparr>
      else w))
      in w1\<lparr>drawings := (drawings w1)(d := (drawings w1 d)
                \<lparr>d_layers := d_layers (drawings w1 d) @ [l]\<rparr>),
            layers := (layers w1)(l := (layers w1 l)\<lparr>l_drawing := Some d\<rparr>)\<rparr>)"
  by (simp add: add_layer_def remove_layer_result Let_def split: option.splits)

lemma add_entity_result:
  "add_entity w l e = Inr
     (let w1 = (case e_layer (entities w e) of None \<Rightarrow> w
                | Some l' \<Rightarrow> (if e \<in> set (l_entities (layers w l'))
      then w\<lparr>layers := (layers w)(l' := (layers w l')
                \<lparr>l_entities := remove1 e (l_entities (layers w l'))\<rparr>),
             entities := (entities w)(e := (entities w e)\<lparr>e_layer := None\<rparr>)\<rparr>
      else w))
      in w1\<lparr>layers := (layers w1)(l := (layers w1 l)
                \<lparr>l_entities := l_entities (layers w1 l) @ [e]\<rparr>),
            entities := (entities w1)(e := (entities w1 e)\<lparr>e_layer := Some l\<rparr>)\<rparr>)"
  by (simp add: add_entity_def remove_entity_result Let_def split: option.splits)

lemma layers_consistent_remove_layer:
  "layers_consistent w \<Longrightarrow> remove_layer w d l = Inr w' \<Longrightarrow> layers_consistent w'"
  unfolding remove_layer_result layers_consistent_def
  by (auto split: if_splits)

lemma layers_consistent_add_layer:
  "layers_consistent w \<Longrightarrow> add_layer w d l = Inr w' \<Longrightarrow> layers_consistent w'"
  unfolding add_layer_result layers_consistent_def Let_def
  by (auto split: if_splits option.splits)

lemma entities_consistent_remove_entity:
  "entities_consistent w \<Longrightarrow> remove_entity w l e = Inr w' \<Longrightarrow> entities_consistent w'"
  unfolding remove_entity_result entities_consistent_def
  by (auto split: if_splits)

lemma entities_consistent_add_entity:
  "entities_consistent w \<Longrightarrow> add_entity w l e = Inr w' \<Longrightarrow> entities_consistent w'"
  unfolding add_entity_result entities_consistent_def Let_def
  by (auto split: if_splits option.splits)

lemma entities_consistent_remove_layer:
  "entities_consistent w \<Longrightarrow> remove_layer w d l = Inr w' \<Longrightarrow> entities_consistent w'"
  unfolding remove_layer_result entities_consistent_def
  by (auto split: if_splits)

lemma entities_consistent_add_layer:
  "entities_consistent w \<Longrightarrow> add_layer w d l = Inr w' \<Longrightarrow> entities_consistent w'"
  unfolding add_layer_result entities_consistent_def Let_def
  by (auto split: if_splits option.splits)

lemma layers_consistent_remove_entity:
  "layers_consistent w \<Longrightarrow> remove_entity w l e = Inr w' \<Longrightarrow> layers_consistent w'"
  unfolding remove_entity_result layers_consistent_def
  by (auto split: if_splits)

lemma layers_consistent_add_entity:
  "layers_consistent w \<Longrightarrow> add_entity w l e = Inr w' \<Longrightarrow> layers_consistent w'"
  unfolding add_entity_result layers_consistent_def Let_def
  by (auto split: if_splits option.splits)

lemma consistent_fresh: "fresh w \<Longrightarrow> consistent w"
  by (simp add: fresh_def consistent_def layers_consistent_def entities_consistent_def)

lemma consistent_flags:
  "consistent w \<Longrightarrow> consistent (Layer_hide w l)"
  "consistent w \<Longrightarrow> consistent (Layer_show w l)"
  "consistent w \<Longrightarrow> consistent (LayerEntity_hide w e)"
  "consistent w \<Longrightarrow> consistent (LayerEntity_show w e)"
  "consistent w \<Longrightarrow> consistent (add_constraint w d c)"
  by (simp_all add: consistent_def layers_consistent_def entities_consistent_def
      Layer_hide_def Layer_show_def LayerEntity_hide_def LayerEntity_show_def add_constraint_def)

lemma reachable_consistent: "reachable w \<Longrightarrow> consistent w"
proof (induction rule: reachable.induct)
  case (start w)
  then show ?case by (rule consistent_fresh)
next
  case (after_add_layer w d l w')
  then show ?case
    by (auto simp: consistent_def intro: layers_consistent_add_layer entities_consistent_add_layer)
next
  case (after_remove_layer w d l w')
  then show ?case
    by (auto simp: consistent_def intro: layers_consistent_remove_layer entities_consistent_remove_layer)
next
  case (after_add_entity w l e w')
  then show ?case
    by (auto simp: consistent_def intro: layers_consistent_add_entity entities_consistent_add_entity)
next
  case (after_remove_entity w l e w')
  then show ?case
    by (auto simp: consistent_def intro: layers_consistent_remove_entity entities_consistent_remove_entity)
qed (simp_all add: consistent_flags)

lemma add_layer_post:
  assumes "layers_consistent w"
  shows "\<exists>w'. add_layer w d l = Inr w' \<and> l_drawing (layers w' l) = Some d
     \<and> (\<forall>d'. d_layers (drawings w' d')
            = remove1 l (d_layers (drawings w d')) @ (if d' = d then [l] else []))"
  using assms unfolding add_layer_result layers_consistent_def Let_def
  by (auto split: option.splits simp: remove1_idem)

lemma remove_layer_post:
  assumes "layers_consistent w" and "l \<in> set (d_layers (drawings w d))"
  shows "\<exists>w'. remove_layer w d l = Inr w' \<and> l_drawing (layers w' l) = None
     \<and> l \<notin> set (d_layers (drawings w' d))
     \<and> d_layers (drawings w' d) = remove1 l (d_layers (drawings w d))"
  using assms unfolding remove_layer_result layers_consistent_def
  by auto

lemma add_entity_post:
  assumes "entities_consistent w"
  shows "\<exists>w'. add_entity w l e = Inr w' \<and> e_layer (entities w' e) = Some l
     \<and> (\<forall>l'. l_entities (layers w' l')
            = remove1 e (l_entities (layers w l')) @ (if l' = l then [e] else []))"
  using assms unfolding add_entity_result entities_consistent_def Let_def
  by (auto split: option.splits simp: remove1_idem)

lemma remove_entity_post:
  assumes "entities_consistent w" and "e \<in> set (l_entities (layers w l))"
  shows "\<exists>w'. remove_entity w l e = Inr w' \<and> e_layer (entities w' e) = None
     \<and> e \<notin> set (l_entities (layers w' l))
     \<and> l_entities (layers w' l) = remove1 e (l_entities (layers w l))"
  using assms unfolding remove_entity_result entities_consistent_def
  by auto

text \<open>
  C6. In every world the methods can reach from a fresh one, membership is consistent: a
  layer is in a drawing's list exactly when its back-pointer is that drawing, no list
  holds a layer twice, so a layer is in at most one drawing's list; and the same for
  entities and layers. \<^verbatim>\<open>add_layer\<close> always returns, takes the layer out of every list
  it was in, appends it to the drawing's list and sets the back-pointer;
  \<^verbatim>\<open>remove_layer\<close> of a member takes it out of the list and sets the back-pointer to
  \<^verbatim>\<open>None\<close>; \<^verbatim>\<open>add_entity\<close> and \<^verbatim>\<open>remove_entity\<close> do the same for entities.
\<close>

theorem membership_consistent:
  assumes "reachable w"
  shows "consistent w
    \<and> (\<forall>l d d'. l \<in> set (d_layers (drawings w d)) \<and> l \<in> set (d_layers (drawings w d')) \<longrightarrow>
          d = d' \<and> l_drawing (layers w l) = Some d)
    \<and> (\<forall>e l l'. e \<in> set (l_entities (layers w l)) \<and> e \<in> set (l_entities (layers w l')) \<longrightarrow>
          l = l' \<and> e_layer (entities w e) = Some l)
    \<and> (\<forall>d l. \<exists>w'. add_layer w d l = Inr w' \<and> l_drawing (layers w' l) = Some d
          \<and> (\<forall>d'. d_layers (drawings w' d')
                 = remove1 l (d_layers (drawings w d')) @ (if d' = d then [l] else [])))
    \<and> (\<forall>d l. l \<in> set (d_layers (drawings w d)) \<longrightarrow>
          (\<exists>w'. remove_layer w d l = Inr w' \<and> l_drawing (layers w' l) = None
             \<and> l \<notin> set (d_layers (drawings w' d))))
    \<and> (\<forall>l e. \<exists>w'. add_entity w l e = Inr w' \<and> e_layer (entities w' e) = Some l
          \<and> (\<forall>l'. l_entities (layers w' l')
                 = remove1 e (l_entities (layers w l')) @ (if l' = l then [e] else [])))
    \<and> (\<forall>l e. e \<in> set (l_entities (layers w l)) \<longrightarrow>
          (\<exists>w'. remove_entity w l e = Inr w' \<and> e_layer (entities w' e) = None
             \<and> e \<notin> set (l_entities (layers w' l))))"
proof -
  have c: "consistent w"
    using assms by (rule reachable_consistent)
  then have lc: "layers_consistent w" and ec: "entities_consistent w"
    by (simp_all add: consistent_def)
  have one_drawing: "\<forall>l d d'. l \<in> set (d_layers (drawings w d)) \<and> l \<in> set (d_layers (drawings w d')) \<longrightarrow>
          d = d' \<and> l_drawing (layers w l) = Some d"
    using lc by (auto simp: layers_consistent_def)
  have one_layer: "\<forall>e l l'. e \<in> set (l_entities (layers w l)) \<and> e \<in> set (l_entities (layers w l')) \<longrightarrow>
          l = l' \<and> e_layer (entities w e) = Some l"
    using ec by (auto simp: entities_consistent_def)
  have rl: "\<forall>d l. l \<in> set (d_layers (drawings w d)) \<longrightarrow>
          (\<exists>w'. remove_layer w d l = Inr w' \<and> l_drawing (layers w' l) = None
             \<and> l \<notin> set (d_layers (drawings w' d)))"
    using remove_layer_post [OF lc] by blast
  have re: "\<forall>l e. e \<in> set (l_entities (layers w l)) \<longrightarrow>
          (\<exists>w'. remove_entity w l e = Inr w' \<and> e_layer (entities w' e) = None
             \<and> e \<notin> set (l_entities (layers w' l)))"
    using remove_entity_post [OF ec] by blast
  show ?thesis
    using c one_drawing one_layer add_layer_post [OF lc] rl add_entity_post [OF ec] re
    by blast
qed

lemma add_layer_returns: "\<exists>w'. add_layer w d l = Inr w'"
  by (simp add: add_layer_result)

lemma add_entity_returns: "\<exists>w'. add_entity w l e = Inr w'"
  by (simp add: add_entity_result)

lemma reachable_bind_add_layer:
  "reachable w \<Longrightarrow> bind_error (add_layer w d l) f = r \<Longrightarrow> \<exists>w'. reachable w' \<and> f w' = r"
  using add_layer_returns [of w d l]
  by (auto simp: bind_error_def intro: reachable.after_add_layer)


lemma reachable_bind_add_entity:
  "reachable w \<Longrightarrow> bind_error (add_entity w l e) f = r \<Longrightarrow> \<exists>w'. reachable w' \<and> f w' = r"
  using add_entity_returns [of w l e]
  by (auto simp: bind_error_def intro: reachable.after_add_entity)

lemma fresh_test_points: "fresh test_points"
  by (simp add: fresh_def test_points_def Drawing_init_def Layer_init_def
      LayerEntity_init_def test_point_def)

lemma test_scene_built:
  "bind_error (add_layer test_points 0 0) (\<lambda>w1.
     bind_error (add_layer w1 0 1) (\<lambda>w2.
       bind_error (add_entity w2 0 0) (\<lambda>w3. add_entity w3 0 1))) = Inr test_scene"
  by (simp add: test_scene_def test_points_def add_layer_def add_entity_def bind_error_def
      Drawing_init_def Layer_init_def LayerEntity_init_def test_point_def fun_upd_twist Let_def fun_eq_iff)


lemma reachable_test_scene: "reachable test_scene"
proof -
  have "reachable test_points"
    using fresh_test_points by (rule reachable.start)
  from reachable_bind_add_layer [OF this test_scene_built]
  obtain w1 where "reachable w1"
    and "bind_error (add_layer w1 0 1) (\<lambda>w2.
           bind_error (add_entity w2 0 0) (\<lambda>w3. add_entity w3 0 1)) = Inr test_scene"
    by blast
  from reachable_bind_add_layer [OF this]
  obtain w2 where "reachable w2"
    and "bind_error (add_entity w2 0 0) (\<lambda>w3. add_entity w3 0 1) = Inr test_scene"
    by blast
  from reachable_bind_add_entity [OF this]
  obtain w3 where "reachable w3" and "add_entity w3 0 1 = Inr test_scene"
    by blast
  then show ?thesis
    by (rule reachable.after_add_entity)
qed


theorem membership_consistent_witness:
  "reachable test_scene \<and> consistent test_scene
   \<and> (0::nat) \<in> set (d_layers (drawings test_scene 0))
   \<and> l_drawing (layers test_scene 0) = Some 0
   \<and> (1::nat) \<in> set (l_entities (layers test_scene 0))
   \<and> e_layer (entities test_scene 1) = Some 0"
  using membership_consistent [OF reachable_test_scene] reachable_test_scene
  by (simp add: test_scene_def)

section \<open>Removing what is not there\<close>

lemma remove_layer_absent:
  "l \<notin> set (d_layers (drawings w d)) \<Longrightarrow> remove_layer w d l = Inr w"
  by (simp add: remove_layer_def list_remove_def)

lemma remove_entity_absent:
  "e \<notin> set (l_entities (layers w l)) \<Longrightarrow> remove_entity w l e = Inr w"
  by (simp add: remove_entity_def list_remove_def)

text \<open>
  C8. \<^verbatim>\<open>remove_layer\<close> of a layer that is not in the drawing's list returns without
  an error and leaves the whole world as it was (the list, the layer and its
  back-pointer included); \<^verbatim>\<open>remove_entity\<close> of an entity that is not in the layer's
  list does the same.
\<close>

theorem remove_absent_noop:
  "(l \<notin> set (d_layers (drawings w d)) \<longrightarrow> remove_layer w d l = Inr w)
   \<and> (e \<notin> set (l_entities (layers w l')) \<longrightarrow> remove_entity w l' e = Inr w)"
  by (simp add: remove_layer_absent remove_entity_absent)

theorem remove_absent_noop_witness:
  "(0::nat) \<notin> set (d_layers (drawings test_points 0))
   \<and> remove_layer test_points 0 0 = Inr test_points
   \<and> (1::nat) \<notin> set (l_entities (layers test_points 0))
   \<and> remove_entity test_points 0 1 = Inr test_points"
  using remove_absent_noop [of 0 test_points 0 1 0]
  by (simp add: test_points_def Drawing_init_def Layer_init_def)

section \<open>Visibility\<close>

lemma foldl_Layer_hide_layers:
  "layers (foldl Layer_hide w ls) l =
     (if l \<in> set ls then (layers w l)\<lparr>l_visible := False\<rparr> else layers w l)"
  by (induction ls arbitrary: w) (auto simp: Layer_hide_def)

lemma foldl_Layer_hide_entities: "entities (foldl Layer_hide w ls) = entities w"
  by (induction ls arbitrary: w) (auto simp: Layer_hide_def)

lemma foldl_Layer_hide_drawings: "drawings (foldl Layer_hide w ls) = drawings w"
  by (induction ls arbitrary: w) (auto simp: Layer_hide_def)

lemma isolate_layer_layers:
  "layers (isolate_layer w d l) l' =
     (if l' = l then (layers w l')\<lparr>l_visible := True\<rparr>
      else if l' \<in> set (d_layers (drawings w d)) then (layers w l')\<lparr>l_visible := False\<rparr>
      else layers w l')"
  by (simp add: isolate_layer_def hide_layers_def filter_layers_def foldl_Layer_hide_layers
      Layer_show_def)

text \<open>
  C9. After \<^verbatim>\<open>isolate_layer\<close> the given layer is visible and every other layer of the
  drawing's list is hidden; no entity and no drawing changes, and of the layers only
  the \<^verbatim>\<open>visible\<close> flags change.
\<close>

theorem isolate_layer_visible:
  "l_visible (layers (isolate_layer w d l) l)
   \<and> (\<forall>l' \<in> set (d_layers (drawings w d)). l' \<noteq> l \<longrightarrow> \<not> l_visible (layers (isolate_layer w d l) l'))
   \<and> entities (isolate_layer w d l) = entities w
   \<and> drawings (isolate_layer w d l) = drawings w
   \<and> (\<forall>l'. layers (isolate_layer w d l) l' = (layers w l')\<lparr>l_visible := l_visible (layers (isolate_layer w d l) l')\<rparr>)"
proof -
  have "entities (isolate_layer w d l) = entities w"
    by (simp add: isolate_layer_def hide_layers_def foldl_Layer_hide_entities Layer_show_def)
  moreover have "drawings (isolate_layer w d l) = drawings w"
    by (simp add: isolate_layer_def hide_layers_def foldl_Layer_hide_drawings Layer_show_def)
  ultimately show ?thesis
    by (simp add: isolate_layer_layers)
qed

theorem isolate_layer_visible_witness:
  "(1::nat) \<in> set (d_layers (drawings test_scene 0))
   \<and> l_visible (layers (isolate_layer test_scene 0 0) 0)
   \<and> \<not> l_visible (layers (isolate_layer test_scene 0 0) 1)
   \<and> entities (isolate_layer test_scene 0 0) = entities test_scene"
  using isolate_layer_visible [of test_scene 0 0]
  by (simp add: test_scene_def)

text \<open>
  C10, as the claim states it, fails: an entity that is in no layer and has been hidden
  gets \<^verbatim>\<open>False\<close> from \<^verbatim>\<open>is_visible\<close>, not a failure, since the layer is not
  looked at when the entity's own flag is false.
\<close>

theorem is_visible_detached_counterexample:
  "e_layer (entities (LayerEntity_hide test_points 0) 0) = None
   \<and> is_visible (LayerEntity_hide test_points 0) 0 = Inr False"
  by (simp add: is_visible_def LayerEntity_hide_def test_points_def test_point_def LayerEntity_init_def)

text \<open>
  C10, amended. For an entity in a layer, \<^verbatim>\<open>is_visible\<close> returns whether both the
  entity's flag and its layer's flag are true. For an entity whose layer is
  \<^verbatim>\<open>None\<close>, it raises \<^verbatim>\<open>AttributeError\<close> when the entity's own flag is true and
  returns \<^verbatim>\<open>False\<close> when it is false.
\<close>

theorem is_visible_cases:
  "(e_layer (entities w e) = Some l \<longrightarrow>
      is_visible w e = Inr (e_visible (entities w e) \<and> l_visible (layers w l)))
   \<and> (e_layer (entities w e) = None \<longrightarrow>
      is_visible w e = (if e_visible (entities w e) then Inl AttributeError else Inr False))"
  by (simp add: is_visible_def)

theorem is_visible_cases_witness:
  "e_layer (entities test_scene 0) = Some 0
   \<and> is_visible test_scene 0 = Inr True
   \<and> is_visible (Layer_hide test_scene 0) 0 = Inr False
   \<and> e_layer (entities test_points 0) = None
   \<and> is_visible test_points 0 = Inl AttributeError"
proof -
  have a: "e_layer (entities test_scene 0) = Some 0"
    by (simp add: test_scene_def)
  have b: "e_layer (entities (Layer_hide test_scene 0) 0) = Some 0"
    by (simp add: test_scene_def Layer_hide_def)
  have c: "e_layer (entities test_points 0) = None"
    by (simp add: test_points_def test_point_def LayerEntity_init_def)
  have "is_visible test_scene 0 = Inr True"
    using is_visible_cases [of test_scene 0 0] a
    by (simp add: test_scene_def test_point_def LayerEntity_init_def)
  moreover have "is_visible (Layer_hide test_scene 0) 0 = Inr False"
    using is_visible_cases [of "Layer_hide test_scene 0" 0 0] b
    by (simp add: test_scene_def Layer_hide_def)
  moreover have "is_visible test_points 0 = Inl AttributeError"
    using is_visible_cases [of test_points 0] c
    by (simp add: test_points_def test_point_def LayerEntity_init_def)
  ultimately show ?thesis using a c by simp
qed

section \<open>Translating constraints into solver primitives\<close>

lemma solver_variable_Point:
  "e_shape (entities w p) = Point px py vs \<Longrightarrow> i < length vs
     \<Longrightarrow> solver_variable p i (sv, w) = (Inr (vs ! i), (sv, w))"
  by (simp add: solver_variable_def list_get_def)

lemma assign_frame:
  "drawings (assign a w) = drawings w"
  "layers (assign a w) = layers w"
  "Point_x (assign a w) e = Point_x w e"
  "Point_y (assign a w) e = Point_y w e"
  "e_layer (entities (assign a w) e) = e_layer (entities w e)"
  "e_visible (entities (assign a w) e) = e_visible (entities w e)"
  by (simp_all add: assign_def Point_x_def Point_y_def split: shape.splits)

lemma assign_Point:
  "e_shape (entities w p) = Point px py vs
     \<Longrightarrow> e_shape (entities (assign a w) p) = Point px py (map (reassign a) vs)"
  by (simp add: assign_def)

lemma register_result:
  "register L p (sv, w) =
     (case L sv p of Inl e \<Rightarrow> (Inl e, sv, w) | Inr a \<Rightarrow> (Inr (), sv @ [p], assign a w))"
  by (simp add: register_def split: sum.splits)

lemma register_frame:
  "register L p (sv, w) = (r, sv', w') \<Longrightarrow>
     drawings w' = drawings w \<and> layers w' = layers w
     \<and> (\<forall>e. Point_x w' e = Point_x w e \<and> Point_y w' e = Point_y w e)"
  by (auto simp: register_result assign_frame split: sum.splits)

lemma test_points_0:
  "e_shape (entities test_points 0) = Point (PyInt 0) (PyInt 0) [Variable X 0 0, Variable Y 0 0]"
  by (simp add: test_points_def test_point_def LayerEntity_init_def)

lemma test_points_1:
  "e_shape (entities test_points 1) = Point (PyInt 5) (PyInt 5) [Variable X 1 5, Variable Y 1 5]"
  by (simp add: test_points_def test_point_def LayerEntity_init_def)

lemma Point_init_exact:
  "fl i = Inr (real_of_int i) \<Longrightarrow> fl j = Inr (real_of_int j)
     \<Longrightarrow> Point_init fl self (PyInt i) (PyInt j) = Inr (test_point self i j)"
  by (simp add: Point_init_def py_float_def bind_error_def test_point_def)

text \<open>
  C2. Claim: a \<^verbatim>\<open>LengthConstraint\<close> over two points and a length registers an equality
  relating the points' solver variables to the length. On the code the method registers
  nothing: the first operation on the differences, \<^verbatim>\<open>(x)**2\<close>, raises. At the input of
  \<^verbatim>\<open>test_length_constraint\<close> (points (10, 10) and (20, 20), length 50) the call ends
  in \<^verbatim>\<open>TypeError\<close> with the solver and the world as they were, whatever the library.
\<close>

theorem LengthConstraint_apply_raises:
  "apply_constraint L (LengthConstraint 2 3 (PyInt 50)) (SimplexSolver, test_points)
     = (Inl TypeError, SimplexSolver, test_points)"
  by (simp add: test_points_def test_point_def LayerEntity_init_def solver_variable_def
      list_get_def prog_bind_def prog_lift_def expression_pow_def)


lemma equation_apply:
  assumes "e_shape (entities w a) = Point ax ay vas"
    and "e_shape (entities w b) = Point bx by vbs"
    and "i < length vas" and "i < length vbs"
  shows "prog_bind (solver_variable a i) (\<lambda>va.
           prog_bind (solver_variable b i) (\<lambda>vb.
             solver_add_constraint L (variable_eq va vb))) (sv, w)
         = (case L sv (Equation (Var (vas ! i)) (Var (vbs ! i))) of
              Inl e \<Rightarrow> (Inl e, sv, w)
            | Inr asg \<Rightarrow> (Inr (), sv @ [Equation (Var (vas ! i)) (Var (vbs ! i))], assign asg w))"
  using assms
  by (simp add: prog_bind_def solver_variable_Point solver_add_constraint_def register_result
      variable_eq_def)

text \<open>
  C3, amended. For a \<^verbatim>\<open>HorizontalConstraint\<close> over two points, \<^verbatim>\<open>apply\<close> hands the
  solver exactly one primitive, the equation between the first point's y variable and
  the second point's y variable. When the library accepts it, it is the one primitive
  registered; when the library raises, \<^verbatim>\<open>apply\<close> raises that error and the solver and
  the world are as before. In both cases no stored coordinate changes (the library may
  rewrite the values of the variables).
\<close>

theorem HorizontalConstraint_apply_registers:
  assumes "e_shape (entities w a) = Point ax ay [xa, ya]"
    and "e_shape (entities w b) = Point bx by [xb, yb]"
  shows "apply_constraint L (HorizontalConstraint a b) (sv, w) =
           (case L sv (Equation (Var ya) (Var yb)) of
              Inl e \<Rightarrow> (Inl e, sv, w)
            | Inr asg \<Rightarrow> (Inr (), sv @ [Equation (Var ya) (Var yb)], assign asg w))
         \<and> (\<forall>r sv' w'. apply_constraint L (HorizontalConstraint a b) (sv, w) = (r, sv', w') \<longrightarrow>
               (\<forall>e. Point_x w' e = Point_x w e \<and> Point_y w' e = Point_y w e))"
proof -
  have eq: "apply_constraint L (HorizontalConstraint a b) (sv, w) =
           (case L sv (Equation (Var ya) (Var yb)) of
              Inl e \<Rightarrow> (Inl e, sv, w)
            | Inr asg \<Rightarrow> (Inr (), sv @ [Equation (Var ya) (Var yb)], assign asg w))"
    using equation_apply [OF assms, of 1 L sv] by (simp split: sum.splits)
  then show ?thesis
    by (auto simp: assign_frame split: sum.splits)
qed


lemma reassign_no_change: "reassign no_change v = v"
  by (simp add: reassign_def no_change_def)

lemma assign_no_change: "assign no_change w = w"
proof -
  have "(\<lambda>e. case e_shape (entities w e) of
            Point px py vs \<Rightarrow> (entities w e)\<lparr>e_shape := Point px py (map (reassign no_change) vs)\<rparr>
          | _ \<Rightarrow> entities w e) = entities w"
  proof (rule ext)
    fix e
    have "map (reassign no_change) vs = vs" for vs
      by (induction vs) (simp_all add: reassign_no_change)
    then show "(case e_shape (entities w e) of
            Point px py vs \<Rightarrow> (entities w e)\<lparr>e_shape := Point px py (map (reassign no_change) vs)\<rparr>
          | _ \<Rightarrow> entities w e) = entities w e"
      by (cases "entities w e") (simp split: shape.splits)
  qed
  then show ?thesis
    by (simp add: assign_def)
qed

lemma stays_apply:
  assumes "e_shape (entities w p) = Point px py [vx, vy]"
  shows "apply_constraint L (FixedConstraint p) (sv, w) =
           (case L sv (Stay vx REQUIRED) of
              Inl e \<Rightarrow> (Inl e, sv, w)
            | Inr a1 \<Rightarrow>
                (case L (sv @ [Stay vx REQUIRED]) (Stay (reassign a1 vy) REQUIRED) of
                   Inl e \<Rightarrow> (Inl e, sv @ [Stay vx REQUIRED], assign a1 w)
                 | Inr a2 \<Rightarrow>
                     (Inr (), sv @ [Stay vx REQUIRED, Stay (reassign a1 vy) REQUIRED],
                      assign a2 (assign a1 w))))"
  using assms assign_Point [OF assms]
  by (simp add: prog_bind_def solver_variable_Point add_stay_def register_result
      split: sum.splits)


theorem HorizontalConstraint_apply_registers_witness:
  "e_shape (entities test_points 0) = Point (PyInt 0) (PyInt 0) [Variable X 0 0, Variable Y 0 0]
   \<and> e_shape (entities test_points 1) = Point (PyInt 5) (PyInt 5) [Variable X 1 5, Variable Y 1 5]
   \<and> apply_constraint test_library (HorizontalConstraint 0 1) (SimplexSolver, test_points)
       = (Inr (), [Equation (Var (Variable Y 0 0)) (Var (Variable Y 1 5))],
          assign (set_value (Variable Y 0 0) 0 (set_value (Variable Y 1 5) 0 no_change)) test_points)
   \<and> Point_y (assign (set_value (Variable Y 0 0) 0 (set_value (Variable Y 1 5) 0 no_change))
         test_points) 1 = Inr (PyInt 5)"
  using HorizontalConstraint_apply_registers [OF test_points_0 test_points_1, of test_library SimplexSolver]
    test_points_0 test_points_1
  by (simp add: SimplexSolver_def assign_frame Point_y_def)

text \<open>
  C3, as the claim states it, fails: on a solver that holds \<^verbatim>\<open>REQUIRED\<close> stays for
  both points, at heights 0 and 5 (the state \<^verbatim>\<open>test_fixed_constraint\<close> reaches),
  \<^verbatim>\<open>apply\<close> raises \<^verbatim>\<open>RequiredFailure\<close> and registers nothing.
\<close>

theorem HorizontalConstraint_refused_counterexample:
  "e_shape (entities test_points 0) = Point (PyInt 0) (PyInt 0) [Variable X 0 0, Variable Y 0 0]
   \<and> e_shape (entities test_points 1) = Point (PyInt 5) (PyInt 5) [Variable X 1 5, Variable Y 1 5]
   \<and> apply_constraint test_library (HorizontalConstraint 0 1) (test_stays, test_points)
       = (Inl RequiredFailure, test_stays, test_points)"
  using equation_apply [OF test_points_0 test_points_1, of 1 test_library test_stays]
    test_points_0 test_points_1
  by (simp add: test_stays_def)




text \<open>
  C4, amended. For a \<^verbatim>\<open>VerticalConstraint\<close> over two points, \<^verbatim>\<open>apply\<close> hands the
  solver exactly one primitive, the equation between the first point's x variable and
  the second point's x variable. When the library accepts it, it is the one primitive
  registered; when the library raises, \<^verbatim>\<open>apply\<close> raises that error and the solver and
  the world are as before. In both cases no stored coordinate changes.
\<close>

theorem VerticalConstraint_apply_registers:
  assumes "e_shape (entities w a) = Point ax ay [xa, ya]"
    and "e_shape (entities w b) = Point bx by [xb, yb]"
  shows "apply_constraint L (VerticalConstraint a b) (sv, w) =
           (case L sv (Equation (Var xa) (Var xb)) of
              Inl e \<Rightarrow> (Inl e, sv, w)
            | Inr asg \<Rightarrow> (Inr (), sv @ [Equation (Var xa) (Var xb)], assign asg w))
         \<and> (\<forall>r sv' w'. apply_constraint L (VerticalConstraint a b) (sv, w) = (r, sv', w') \<longrightarrow>
               (\<forall>e. Point_x w' e = Point_x w e \<and> Point_y w' e = Point_y w e))"
proof -
  have eq: "apply_constraint L (VerticalConstraint a b) (sv, w) =
           (case L sv (Equation (Var xa) (Var xb)) of
              Inl e \<Rightarrow> (Inl e, sv, w)
            | Inr asg \<Rightarrow> (Inr (), sv @ [Equation (Var xa) (Var xb)], assign asg w))"
    using equation_apply [OF assms, of 0 L sv] by (simp split: sum.splits)
  then show ?thesis
    by (auto simp: assign_frame split: sum.splits)
qed

theorem VerticalConstraint_apply_registers_witness:
  "e_shape (entities test_points 0) = Point (PyInt 0) (PyInt 0) [Variable X 0 0, Variable Y 0 0]
   \<and> e_shape (entities test_points 1) = Point (PyInt 5) (PyInt 5) [Variable X 1 5, Variable Y 1 5]
   \<and> apply_constraint test_library (VerticalConstraint 0 1) (SimplexSolver, test_points)
       = (Inr (), [Equation (Var (Variable X 0 0)) (Var (Variable X 1 5))],
          assign (set_value (Variable X 0 0) 0 (set_value (Variable X 1 5) 0 no_change)) test_points)
   \<and> Point_x (assign (set_value (Variable X 0 0) 0 (set_value (Variable X 1 5) 0 no_change))
         test_points) 1 = Inr (PyInt 5)"
  using VerticalConstraint_apply_registers [OF test_points_0 test_points_1, of test_library SimplexSolver]
    test_points_0 test_points_1
  by (simp add: SimplexSolver_def assign_frame Point_x_def)

text \<open>
  C4, as the claim states it, fails: on a solver that holds \<^verbatim>\<open>REQUIRED\<close> stays for
  both points, at x = 0 and x = 5, \<^verbatim>\<open>apply\<close> raises \<^verbatim>\<open>RequiredFailure\<close> and
  registers nothing.
\<close>

theorem VerticalConstraint_refused_counterexample:
  "e_shape (entities test_points 0) = Point (PyInt 0) (PyInt 0) [Variable X 0 0, Variable Y 0 0]
   \<and> e_shape (entities test_points 1) = Point (PyInt 5) (PyInt 5) [Variable X 1 5, Variable Y 1 5]
   \<and> apply_constraint test_library (VerticalConstraint 0 1) (test_stays, test_points)
       = (Inl RequiredFailure, test_stays, test_points)"
  using equation_apply [OF test_points_0 test_points_1, of 0 test_library test_stays]
    test_points_0 test_points_1
  by (simp add: test_stays_def)

section \<open>Solving\<close>

lemma assign_drawings_update:
  "assign a (w\<lparr>drawings := D\<rparr>) = (assign a w)\<lparr>drawings := D\<rparr>"
  by (simp add: assign_def cong: shape.case_cong)

lemma solver_variable_drawings:
  "solver_variable p i (sv, w\<lparr>drawings := D\<rparr>) =
     (fst (solver_variable p i (sv, w)), sv, w\<lparr>drawings := D\<rparr>)"
  "snd (solver_variable p i (sv, w)) = (sv, w)"
  by (simp_all add: solver_variable_def split: shape.splits option.splits)

lemma register_drawings:
  "register L p (sv, w\<lparr>drawings := D\<rparr>) = with_drawings D (register L p (sv, w))"
  by (simp add: register_def with_drawings_def assign_drawings_update split: sum.splits)

lemma apply_constraint_drawings:
  "apply_constraint L c (sv, w\<lparr>drawings := D\<rparr>) = with_drawings D (apply_constraint L c (sv, w))"
proof (cases c)
  case (FixedConstraint p)
  show ?thesis
    unfolding FixedConstraint apply_constraint.simps prog_bind_def add_stay_def
    by (auto simp: solver_variable_def register_def with_drawings_def assign_drawings_update
        split: shape.splits option.splits sum.splits prod.splits)
next
  case (HorizontalConstraint a b)
  show ?thesis
    unfolding HorizontalConstraint apply_constraint.simps prog_bind_def solver_add_constraint_def
    by (auto simp: solver_variable_def register_def with_drawings_def assign_drawings_update
        split: shape.splits option.splits sum.splits prod.splits)
next
  case (VerticalConstraint a b)
  show ?thesis
    unfolding VerticalConstraint apply_constraint.simps prog_bind_def solver_add_constraint_def
    by (auto simp: solver_variable_def register_def with_drawings_def assign_drawings_update
        split: shape.splits option.splits sum.splits prod.splits)
next
  case (LengthConstraint a b n)
  show ?thesis
    unfolding LengthConstraint apply_constraint.simps prog_bind_def prog_lift_def
      expression_pow_def Let_def
    by (auto simp: solver_variable_def with_drawings_def
        split: shape.splits option.splits sum.splits prod.splits)
next
  case (HorizontalLengthConstraint a b n)
  show ?thesis
    unfolding HorizontalLengthConstraint apply_constraint.simps prog_bind_def prog_lift_def
      expression_abs_def
    by (auto simp: solver_variable_def with_drawings_def
        split: shape.splits option.splits sum.splits prod.splits)
qed

lemma apply_all_drawings:
  "apply_all L cs (sv, w\<lparr>drawings := D\<rparr>) = with_drawings D (apply_all L cs (sv, w))"
proof (induction cs arbitrary: sv w)
  case Nil
  show ?case by (simp add: prog_return_def with_drawings_def)
next
  case (Cons c cs)
  obtain r sv1 w1 where step: "apply_constraint L c (sv, w) = (r, sv1, w1)"
    by (cases "apply_constraint L c (sv, w)") auto
  show ?case
  proof (cases r)
    case (Inl e)
    with step show ?thesis
      by (simp add: prog_bind_def apply_constraint_drawings with_drawings_def)
  next
    case (Inr u)
    with step Cons.IH [of sv1 w1] show ?thesis
      by (simp add: prog_bind_def apply_constraint_drawings with_drawings_def)
  qed
qed

lemma apply_all_snoc:
  "apply_all L (cs @ [c]) st =
     (case apply_all L cs st of
        (Inl e, st') \<Rightarrow> (Inl e, st')
      | (Inr u, st') \<Rightarrow> apply_constraint L c st')"
proof (induction cs arbitrary: st)
  case Nil
  show ?case
    by (simp add: prog_bind_def prog_return_def split: prod.splits sum.splits)
next
  case (Cons a cs)
  show ?case
    by (simp add: prog_bind_def Cons.IH split: prod.splits sum.splits)
qed

lemma apply_constraint_frame:
  "apply_constraint L c (sv, w) = (r, sv', w') \<Longrightarrow>
     drawings w' = drawings w \<and> layers w' = layers w
     \<and> (\<forall>e. Point_x w' e = Point_x w e \<and> Point_y w' e = Point_y w e
            \<and> e_layer (entities w' e) = e_layer (entities w e)
            \<and> e_visible (entities w' e) = e_visible (entities w e))"
proof (cases c)
  case (FixedConstraint p)
  assume "apply_constraint L c (sv, w) = (r, sv', w')"
  then show ?thesis
    unfolding FixedConstraint apply_constraint.simps prog_bind_def add_stay_def
    by (auto simp: solver_variable_def register_def assign_frame
        split: shape.splits option.splits sum.splits prod.splits)
next
  case (HorizontalConstraint a b)
  assume "apply_constraint L c (sv, w) = (r, sv', w')"
  then show ?thesis
    unfolding HorizontalConstraint apply_constraint.simps prog_bind_def solver_add_constraint_def
    by (auto simp: solver_variable_def register_def assign_frame
        split: shape.splits option.splits sum.splits prod.splits)
next
  case (VerticalConstraint a b)
  assume "apply_constraint L c (sv, w) = (r, sv', w')"
  then show ?thesis
    unfolding VerticalConstraint apply_constraint.simps prog_bind_def solver_add_constraint_def
    by (auto simp: solver_variable_def register_def assign_frame
        split: shape.splits option.splits sum.splits prod.splits)
next
  case (LengthConstraint a b n)
  assume "apply_constraint L c (sv, w) = (r, sv', w')"
  then show ?thesis
    unfolding LengthConstraint apply_constraint.simps prog_bind_def prog_lift_def
      expression_pow_def Let_def
    by (auto simp: solver_variable_def
        split: shape.splits option.splits sum.splits prod.splits)
next
  case (HorizontalLengthConstraint a b n)
  assume "apply_constraint L c (sv, w) = (r, sv', w')"
  then show ?thesis
    unfolding HorizontalLengthConstraint apply_constraint.simps prog_bind_def prog_lift_def
      expression_abs_def
    by (auto simp: solver_variable_def
        split: shape.splits option.splits sum.splits prod.splits)
qed

lemma apply_all_frame:
  "apply_all L cs (sv, w) = (r, sv', w') \<Longrightarrow>
     drawings w' = drawings w \<and> layers w' = layers w
     \<and> (\<forall>e. Point_x w' e = Point_x w e \<and> Point_y w' e = Point_y w e
            \<and> e_layer (entities w' e) = e_layer (entities w e)
            \<and> e_visible (entities w' e) = e_visible (entities w e))"
proof (induction cs arbitrary: sv w)
  case Nil
  then show ?case by (simp add: prog_return_def)
next
  case (Cons c cs)
  obtain r1 sv1 w1 where step: "apply_constraint L c (sv, w) = (r1, sv1, w1)"
    by (cases "apply_constraint L c (sv, w)") auto
  note f1 = apply_constraint_frame [OF step]
  show ?case
  proof (cases r1)
    case (Inl e)
    with step Cons.prems have "w' = w1" by (simp add: prog_bind_def)
    with f1 show ?thesis by simp
  next
    case (Inr u)
    with step Cons.prems have "apply_all L cs (sv1, w1) = (r, sv', w')"
      by (simp add: prog_bind_def)
    from Cons.IH [OF this] f1 show ?thesis by simp
  qed
qed

lemma add_constraint_drawings:
  "add_constraint w d c =
     w\<lparr>drawings := (drawings w)(d := (drawings w d)
          \<lparr>d_constraints := d_constraints (drawings w d) @ [c]\<rparr>)\<rparr>"
  by (simp add: add_constraint_def)

lemma solve_add_constraint:
  "solve L (add_constraint w d c) d =
     (case solve L w d of
        (Inl e, sv, w1) \<Rightarrow> (Inl e, sv, add_constraint w1 d c)
      | (Inr u, sv, w1) \<Rightarrow> apply_constraint L c (sv, add_constraint w1 d c))"
proof -
  let ?cs = "d_constraints (drawings w d)"
  let ?D = "(drawings w)(d := (drawings w d)\<lparr>d_constraints := ?cs @ [c]\<rparr>)"
  obtain r sv w1 where run: "apply_all L ?cs (SimplexSolver, w) = (r, sv, w1)"
    by (cases "apply_all L ?cs (SimplexSolver, w)") auto
  from apply_all_frame [OF run] have "drawings w1 = drawings w" by simp
  then have w1: "add_constraint w1 d c = w1\<lparr>drawings := ?D\<rparr>"
    by (simp add: add_constraint_drawings)
  have "solve L (add_constraint w d c) d
          = with_drawings ?D (apply_all L (?cs @ [c]) (SimplexSolver, w))"
    by (simp add: solve_def add_constraint_drawings apply_all_drawings)
  also have "\<dots> = (case r of
        Inl e \<Rightarrow> (Inl e, sv, w1\<lparr>drawings := ?D\<rparr>)
      | Inr u \<Rightarrow> apply_constraint L c (sv, w1\<lparr>drawings := ?D\<rparr>))"
    by (simp add: apply_all_snoc run apply_constraint_drawings with_drawings_def
        split: sum.splits)
  finally show ?thesis
    by (simp add: solve_def run w1 split: sum.splits)
qed

text \<open>
  C1, amended. \<^verbatim>\<open>solve\<close> starts from a new, empty solver and applies the constraints
  in the order of the \<^verbatim>\<open>add_constraint\<close> calls, up to and including the first one
  whose \<^verbatim>\<open>apply\<close> raises: on a drawing without constraints it returns with the empty
  solver; after one more \<^verbatim>\<open>add_constraint\<close> it does what it did before and then, if
  that returned, applies the new constraint to the solver and world it reached, and if
  that raised, raises the same error in the same state, the new constraint not being
  applied. It changes no drawing, no layer and no stored coordinate.
\<close>

theorem solve_applies_in_order:
  "(d_constraints (drawings w d) = [] \<longrightarrow> solve L w d = (Inr (), SimplexSolver, w))
   \<and> solve L (add_constraint w d c) d =
       (case solve L w d of
          (Inl e, sv, w1) \<Rightarrow> (Inl e, sv, add_constraint w1 d c)
        | (Inr u, sv, w1) \<Rightarrow> apply_constraint L c (sv, add_constraint w1 d c))
   \<and> (\<forall>r sv w'. solve L w d = (r, sv, w') \<longrightarrow>
         drawings w' = drawings w \<and> layers w' = layers w
         \<and> (\<forall>e. Point_x w' e = Point_x w e \<and> Point_y w' e = Point_y w e))"
proof -
  have "d_constraints (drawings w d) = [] \<longrightarrow> solve L w d = (Inr (), SimplexSolver, w)"
    by (simp add: solve_def prog_return_def)
  moreover have "\<forall>r sv w'. solve L w d = (r, sv, w') \<longrightarrow>
         drawings w' = drawings w \<and> layers w' = layers w
         \<and> (\<forall>e. Point_x w' e = Point_x w e \<and> Point_y w' e = Point_y w e)"
  proof (intro allI impI)
    fix r sv w'
    assume "solve L w d = (r, sv, w')"
    then have "apply_all L (d_constraints (drawings w d)) (SimplexSolver, w) = (r, sv, w')"
      by (simp add: solve_def)
    from apply_all_frame [OF this]
    show "drawings w' = drawings w \<and> layers w' = layers w
         \<and> (\<forall>e. Point_x w' e = Point_x w e \<and> Point_y w' e = Point_y w e)"
      by simp
  qed
  moreover note solve_add_constraint [of L w d c]
  ultimately show ?thesis
    by (intro conjI)
qed

lemma test_points_no_constraints: "d_constraints (drawings test_points 0) = []"
  by (simp add: test_points_def Drawing_init_def)

lemma test_points_Fixed_1:
  "apply_constraint test_library (FixedConstraint 1)
       (SimplexSolver, add_constraint test_points 0 (FixedConstraint 1))
     = (Inr (), [Stay (Variable X 1 5) REQUIRED, Stay (Variable Y 1 5) REQUIRED],
        add_constraint test_points 0 (FixedConstraint 1))"
proof -
  have "e_shape (entities (add_constraint test_points 0 (FixedConstraint 1)) 1)
          = Point (PyInt 5) (PyInt 5) [Variable X 1 5, Variable Y 1 5]"
    using test_points_1 by (simp add: add_constraint_def)
  from stays_apply [OF this, of test_library SimplexSolver] show ?thesis
    by (simp add: SimplexSolver_def reassign_no_change assign_no_change)
qed

theorem solve_applies_in_order_witness:
  "d_constraints (drawings test_points 0) = []
   \<and> solve test_library test_points 0 = (Inr (), SimplexSolver, test_points)
   \<and> solve test_library (add_constraint test_points 0 (FixedConstraint 1)) 0
       = (Inr (), [Stay (Variable X 1 5) REQUIRED, Stay (Variable Y 1 5) REQUIRED],
          add_constraint test_points 0 (FixedConstraint 1))"
proof -
  note inst = solve_applies_in_order [of test_points 0 test_library "FixedConstraint 1"]
  from inst test_points_no_constraints
  have empty: "solve test_library test_points 0 = (Inr (), SimplexSolver, test_points)"
    by blast
  from inst
  have "solve test_library (add_constraint test_points 0 (FixedConstraint 1)) 0 =
       (case solve test_library test_points 0 of
          (Inl e, sv, w1) \<Rightarrow> (Inl e, sv, add_constraint w1 0 (FixedConstraint 1))
        | (Inr u, sv, w1) \<Rightarrow>
            apply_constraint test_library (FixedConstraint 1)
              (sv, add_constraint w1 0 (FixedConstraint 1)))"
    by blast
  then have "solve test_library (add_constraint test_points 0 (FixedConstraint 1)) 0
       = (Inr (), [Stay (Variable X 1 5) REQUIRED, Stay (Variable Y 1 5) REQUIRED],
          add_constraint test_points 0 (FixedConstraint 1))"
    by (simp only: empty prod.case sum.case test_points_Fixed_1)
  with empty test_points_no_constraints show ?thesis
    by (intro conjI)
qed

lemma entities_add_constraint: "entities (add_constraint w d c) = entities w"
  by (simp add: add_constraint_def)

lemma test_fixed_solve:
  "solve test_library test_fixed 0 = (Inl RequiredFailure, test_stays, test_fixed)"
proof -
  let ?w1 = "add_constraint test_points 0 (FixedConstraint 0)"
  let ?w2 = "add_constraint ?w1 0 (FixedConstraint 1)"
  have s0: "solve test_library test_points 0 = (Inr (), SimplexSolver, test_points)"
    by (simp add: solve_def prog_return_def test_points_no_constraints)
  have p0: "e_shape (entities w 0) = Point (PyInt 0) (PyInt 0) [Variable X 0 0, Variable Y 0 0]"
    if "entities w = entities test_points" for w
    using that test_points_0 by simp
  have p1: "e_shape (entities w 1) = Point (PyInt 5) (PyInt 5) [Variable X 1 5, Variable Y 1 5]"
    if "entities w = entities test_points" for w
    using that test_points_1 by simp
  have s1: "solve test_library ?w1 0
      = (Inr (), [Stay (Variable X 0 0) REQUIRED, Stay (Variable Y 0 0) REQUIRED], ?w1)"
    using stays_apply [OF p0 [of ?w1], of test_library SimplexSolver]
    by (simp add: solve_add_constraint s0 entities_add_constraint SimplexSolver_def
        reassign_no_change assign_no_change)
  have s2: "solve test_library ?w2 0 = (Inr (), test_stays, ?w2)"
    using stays_apply [OF p1 [of ?w2], of test_library
        "[Stay (Variable X 0 0) REQUIRED, Stay (Variable Y 0 0) REQUIRED]"]
    by (simp add: solve_add_constraint [of _ ?w1] s1 entities_add_constraint test_stays_def
        reassign_no_change assign_no_change del: One_nat_def)
  have ent: "entities test_fixed = entities test_points"
    by (simp add: test_fixed_def entities_add_constraint)
  have last_step: "apply_constraint test_library (HorizontalConstraint 0 1) (test_stays, test_fixed)
      = (Inl RequiredFailure, test_stays, test_fixed)"
    using equation_apply [OF p0 [OF ent] p1 [OF ent], of 1 test_library test_stays]
    by (simp add: test_stays_def)
  have "solve test_library test_fixed 0 =
      (case solve test_library ?w2 0 of
         (Inl e, sv, w1) \<Rightarrow> (Inl e, sv, add_constraint w1 0 (HorizontalConstraint 0 1))
       | (Inr u, sv, w1) \<Rightarrow>
           apply_constraint test_library (HorizontalConstraint 0 1)
             (sv, add_constraint w1 0 (HorizontalConstraint 0 1)))"
    unfolding test_fixed_def by (rule solve_add_constraint)
  also have "\<dots> = apply_constraint test_library (HorizontalConstraint 0 1) (test_stays, test_fixed)"
    by (simp only: s2 prod.case sum.case test_fixed_def)
  finally show ?thesis
    by (simp only: last_step)
qed

lemma test_segment_second_solve:
  "solve test_library test_segment_second 0
     = (Inl AttributeError, [Stay (Variable X 0 0) REQUIRED, Stay (Variable Y 0 0) REQUIRED],
        test_segment_second)"
proof -
  let ?sv = "[Stay (Variable X 0 0) REQUIRED, Stay (Variable Y 0 0) REQUIRED]"
  let ?w1 = "add_constraint test_points 0 (FixedConstraint 0)"
  let ?w2 = "add_constraint ?w1 0 (HorizontalConstraint 0 4)"
  have s0: "solve test_library test_points 0 = (Inr (), SimplexSolver, test_points)"
    by (simp add: solve_def prog_return_def test_points_no_constraints)
  have p0: "e_shape (entities ?w1 0) = Point (PyInt 0) (PyInt 0) [Variable X 0 0, Variable Y 0 0]"
    using test_points_0 by (simp add: entities_add_constraint)
  have s1: "solve test_library ?w1 0 = (Inr (), ?sv, ?w1)"
    using stays_apply [OF p0, of test_library SimplexSolver]
    by (simp add: solve_add_constraint s0 entities_add_constraint SimplexSolver_def
        reassign_no_change assign_no_change)
  have "apply_constraint test_library (HorizontalConstraint 0 4) (?sv, ?w2)
      = (Inl AttributeError, ?sv, ?w2)"
    by (simp add: prog_bind_def solver_variable_def list_get_def entities_add_constraint
        test_points_def test_point_def LayerEntity_init_def)
  then have s2: "solve test_library ?w2 0 = (Inl AttributeError, ?sv, ?w2)"
    by (simp add: solve_add_constraint [of _ ?w1] s1 del: One_nat_def)
  have "solve test_library test_segment_second 0 =
      (case solve test_library ?w2 0 of
         (Inl e, sv, w1) \<Rightarrow> (Inl e, sv, add_constraint w1 0 (VerticalConstraint 0 1))
       | (Inr u, sv, w1) \<Rightarrow>
           apply_constraint test_library (VerticalConstraint 0 1)
             (sv, add_constraint w1 0 (VerticalConstraint 0 1)))"
    unfolding test_segment_second_def by (rule solve_add_constraint)
  then show ?thesis
    by (simp only: s2 prod.case sum.case test_segment_second_def)
qed

lemma test_fixed_constraints:
  "d_constraints (drawings test_fixed 0)
     = [FixedConstraint 0, FixedConstraint 1, HorizontalConstraint 0 1]"
  by (simp add: test_fixed_def add_constraint_def test_points_def Drawing_init_def)

lemma test_segment_second_constraints:
  "d_constraints (drawings test_segment_second 0)
     = [FixedConstraint 0, HorizontalConstraint 0 4, VerticalConstraint 0 1]"
  by (simp add: test_segment_second_def add_constraint_def test_points_def Drawing_init_def)

text \<open>
  C1, as the claim states it, fails. On the drawing of \<^verbatim>\<open>test_fixed_constraint\<close>
  \<^verbatim>\<open>solve\<close> raises \<^verbatim>\<open>RequiredFailure\<close> with the four stays in the solver and the
  third constraint's equality not registered. With a constraint over a segment in second
  place \<^verbatim>\<open>solve\<close> raises \<^verbatim>\<open>AttributeError\<close> there, and the third constraint is
  never applied.
\<close>

theorem solve_stops_at_first_raise_counterexample:
  "d_constraints (drawings test_fixed 0)
     = [FixedConstraint 0, FixedConstraint 1, HorizontalConstraint 0 1]
   \<and> solve test_library test_fixed 0 = (Inl RequiredFailure, test_stays, test_fixed)
   \<and> d_constraints (drawings test_segment_second 0)
     = [FixedConstraint 0, HorizontalConstraint 0 4, VerticalConstraint 0 1]
   \<and> solve test_library test_segment_second 0
     = (Inl AttributeError, [Stay (Variable X 0 0) REQUIRED, Stay (Variable Y 0 0) REQUIRED],
        test_segment_second)"
  using test_fixed_constraints test_fixed_solve test_segment_second_constraints
    test_segment_second_solve
  by (intro conjI)

end
